theory Spec2Isabelle
  imports Complex_Main "HOL-Library.Sublist" "HOL-Library.Multiset"
begin

section \<open>Floating-point values and Python objects\<close>

text \<open>
  The program computes with Python floats. A float is modelled by the value it denotes:
  not-a-number, one of the two infinities, or a finite real. Comparisons follow IEEE 754:
  every comparison with not-a-number is false. Decimal literals of the source
  (\<^verbatim>\<open>0.98\<close>, \<^verbatim>\<open>0.30\<close>, ...) denote their decimal value. The product and the sum of two
  finite floats are rounded to a float, and how belongs to the float format, not to the
  source: the two operations on finite values are parameters (\<open>fl_mul\<close>, \<open>fl_add\<close>) of
  everything that multiplies or adds, and what is proved holds for every choice of them.
\<close>

datatype fval = NaN | NInf | Fin real | PInf

text \<open>\<^verbatim>\<open>a <= b\<close> on floats.\<close>

fun fle :: "fval \<Rightarrow> fval \<Rightarrow> bool" where
  "fle NaN b = False"
| "fle a NaN = False"
| "fle NInf b = True"
| "fle a PInf = True"
| "fle (Fin a) (Fin b) = (a \<le> b)"
| "fle a b = False"

text \<open>\<^verbatim>\<open>a >= b\<close>, \<^verbatim>\<open>a < b\<close> and \<^verbatim>\<open>a == b\<close> on floats.\<close>

definition fge :: "fval \<Rightarrow> fval \<Rightarrow> bool" where
  "fge a b = fle b a"

definition flt :: "fval \<Rightarrow> fval \<Rightarrow> bool" where
  "flt a b = (fle a b \<and> \<not> fle b a)"

definition feq :: "fval \<Rightarrow> fval \<Rightarrow> bool" where
  "feq a b = (fle a b \<and> fle b a)"

text \<open>\<^verbatim>\<open>np.isnan\<close>.\<close>

definition isnan :: "fval \<Rightarrow> bool" where
  "isnan a = (a = NaN)"

text \<open>\<^verbatim>\<open>np.maximum\<close> and \<^verbatim>\<open>np.minimum\<close>: not-a-number propagates.\<close>

definition fmaximum :: "fval \<Rightarrow> fval \<Rightarrow> fval" where
  "fmaximum a b = (if isnan a \<or> isnan b then NaN else if fle a b then b else a)"

definition fminimum :: "fval \<Rightarrow> fval \<Rightarrow> fval" where
  "fminimum a b = (if isnan a \<or> isnan b then NaN else if fle a b then a else b)"

text \<open>\<^verbatim>\<open>np.clip(x, lo, hi)\<close> is \<^verbatim>\<open>minimum(maximum(x, lo), hi)\<close>.\<close>

definition clip :: "fval \<Rightarrow> fval \<Rightarrow> fval \<Rightarrow> fval" where
  "clip x lo hi = fminimum (fmaximum x lo) hi"

text \<open>
  Float multiplication and addition (IEEE special cases written out). A product of finite
  values with a factor 0 is 0; every other finite product, and every finite sum, is what
  the parameter gives.
\<close>

fun fmul :: "(real \<Rightarrow> real \<Rightarrow> fval) \<Rightarrow> fval \<Rightarrow> fval \<Rightarrow> fval" where
  "fmul fl_mul NaN b = NaN"
| "fmul fl_mul a NaN = NaN"
| "fmul fl_mul (Fin a) (Fin b) = (if a = 0 \<or> b = 0 then Fin 0 else fl_mul a b)"
| "fmul fl_mul (Fin a) PInf = (if a = 0 then NaN else if 0 < a then PInf else NInf)"
| "fmul fl_mul (Fin a) NInf = (if a = 0 then NaN else if 0 < a then NInf else PInf)"
| "fmul fl_mul PInf (Fin b) = (if b = 0 then NaN else if 0 < b then PInf else NInf)"
| "fmul fl_mul NInf (Fin b) = (if b = 0 then NaN else if 0 < b then NInf else PInf)"
| "fmul fl_mul PInf PInf = PInf"
| "fmul fl_mul NInf NInf = PInf"
| "fmul fl_mul PInf NInf = NInf"
| "fmul fl_mul NInf PInf = NInf"

fun fadd :: "(real \<Rightarrow> real \<Rightarrow> fval) \<Rightarrow> fval \<Rightarrow> fval \<Rightarrow> fval" where
  "fadd fl_add NaN b = NaN"
| "fadd fl_add a NaN = NaN"
| "fadd fl_add (Fin a) (Fin b) = fl_add a b"
| "fadd fl_add PInf NInf = NaN"
| "fadd fl_add NInf PInf = NaN"
| "fadd fl_add PInf b = PInf"
| "fadd fl_add a PInf = PInf"
| "fadd fl_add NInf b = NInf"
| "fadd fl_add a NInf = NInf"

text \<open>Python's \<^verbatim>\<open>sum\<close>: a left fold starting at 0.\<close>

definition fsum :: "(real \<Rightarrow> real \<Rightarrow> fval) \<Rightarrow> fval list \<Rightarrow> fval" where
  "fsum fl_add xs = foldl (fadd fl_add) (Fin 0) xs"

text \<open>The exact product and sum, for running examples whose products and sums are exact.\<close>

definition exact_mul :: "real \<Rightarrow> real \<Rightarrow> fval" where
  "exact_mul a b = Fin (a * b)"

definition exact_add :: "real \<Rightarrow> real \<Rightarrow> fval" where
  "exact_add a b = Fin (a + b)"

text \<open>
  A cell value read from a row, seen through \<^verbatim>\<open>float()\<close>: either \<^verbatim>\<open>float(x)\<close>
  returns a float (floats, integers, numeric text; \<^verbatim>\<open>float("nan")\<close> is not-a-number),
  or it raises (non-numeric text such as \<^verbatim>\<open>"abc"\<close>, \<^verbatim>\<open>None\<close>).
\<close>

datatype pyobj = Numeric fval | Unparseable

section \<open>Helpers\<close>

text \<open>\<^verbatim>\<open>safe_float(x, default)\<close>: \<^verbatim>\<open>float(x)\<close>, or the default when it raises.\<close>

definition safe_float :: "pyobj \<Rightarrow> fval \<Rightarrow> fval" where
  "safe_float x dflt = (case x of Numeric f \<Rightarrow> f | Unparseable \<Rightarrow> dflt)"

text \<open>\<^verbatim>\<open>clamp01(x)\<close>: \<^verbatim>\<open>x = safe_float(x, 0.0); return float(np.clip(x, 0.0, 1.0))\<close>.\<close>

definition clamp01 :: "pyobj \<Rightarrow> fval" where
  "clamp01 x = (let x = safe_float x (Fin 0) in clip x (Fin 0) (Fin 1))"

section \<open>Python strings\<close>

text \<open>
  A Python string is a sequence of Unicode code points. \<open>str\<close> turns a literal of
  ASCII characters into its code points.
\<close>

type_synonym pystr = "nat list"

definition str :: "string \<Rightarrow> pystr" where
  "str cs = map of_char cs"

text \<open>\<^verbatim>\<open>sep.join(xs)\<close>.\<close>

fun join :: "pystr \<Rightarrow> pystr list \<Rightarrow> pystr" where
  "join sep [] = []"
| "join sep [x] = x"
| "join sep (x # y # ys) = x @ sep @ join sep (y # ys)"

text \<open>
  \<^verbatim>\<open>s.capitalize()\<close>: the first character in upper case, the rest in lower case. The
  program applies it to the joined clauses only, which are fixed texts of ASCII letters,
  punctuation and the bullet U+2022; the case maps are those of ASCII and leave every
  other code point alone.
\<close>

definition upper_char :: "nat \<Rightarrow> nat" where
  "upper_char c = (if 97 \<le> c \<and> c \<le> 122 then c - 32 else c)"

definition lower_char :: "nat \<Rightarrow> nat" where
  "lower_char c = (if 65 \<le> c \<and> c \<le> 90 then c + 32 else c)"

fun capitalize :: "pystr \<Rightarrow> pystr" where
  "capitalize [] = []"
| "capitalize (c # cs) = upper_char c # map lower_char cs"

text \<open>\<^verbatim>\<open>s.strip()\<close> removes leading and trailing whitespace (\<^verbatim>\<open>str.isspace\<close>).\<close>

definition isspace :: "nat \<Rightarrow> bool" where
  "isspace c =
     ((9 \<le> c \<and> c \<le> 13) \<or> (28 \<le> c \<and> c \<le> 32) \<or> c = 133 \<or> c = 160 \<or> c = 5760
      \<or> (8192 \<le> c \<and> c \<le> 8202) \<or> c = 8232 \<or> c = 8233 \<or> c = 8239 \<or> c = 8287
      \<or> c = 12288)"

definition strip :: "pystr \<Rightarrow> pystr" where
  "strip s = rev (dropWhile isspace (rev (dropWhile isspace s)))"

subsection \<open>Searching with a pattern\<close>

text \<open>
  \<^verbatim>\<open>Series.str.contains(pat)\<close> is called with its defaults, so \<^verbatim>\<open>pat\<close> is a regular
  expression, searched case-sensitively anywhere in the text (\<^verbatim>\<open>re.search\<close>). The
  model covers the patterns made of literal characters and the dot, which stands for
  any character but a newline. For a pattern with another special character
  (\<^verbatim>\<open>^ $ * + ? { } [ ] \ | ( )\<close>) the model gives no result: what the regular
  expression engine makes of it, or that it rejects it, is not described here.
\<close>

definition regex_special :: "nat set" where
  "regex_special = set (str ''.^$*+?{}[]|()'') \<union> {92}"

datatype pat_elem = Lit nat | AnyChar

fun re_compile :: "pystr \<Rightarrow> pat_elem list option" where
  "re_compile [] = Some []"
| "re_compile (c # cs) =
     (if c = 46 then map_option ((#) AnyChar) (re_compile cs)
      else if c \<in> regex_special then None
      else map_option ((#) (Lit c)) (re_compile cs))"

fun elem_matches :: "pat_elem \<Rightarrow> nat \<Rightarrow> bool" where
  "elem_matches (Lit a) c = (a = c)"
| "elem_matches AnyChar c = (c \<noteq> 10)"

fun match_here :: "pat_elem list \<Rightarrow> pystr \<Rightarrow> bool" where
  "match_here [] s = True"
| "match_here (p # ps) [] = False"
| "match_here (p # ps) (c # cs) = (elem_matches p c \<and> match_here ps cs)"

fun re_search :: "pat_elem list \<Rightarrow> pystr \<Rightarrow> bool" where
  "re_search p [] = match_here p []"
| "re_search p (c # cs) = (match_here p (c # cs) \<or> re_search p cs)"

section \<open>Configuration\<close>

text \<open>
  The keys of the weight table \<^verbatim>\<open>W\<close>, which are also the component names of the
  contribution table, in the order the source writes them.
\<close>

datatype wkey = K_price | K_bed | K_bath | K_type | K_cond | K_year | K_size | K_loc

fun W :: "wkey \<Rightarrow> fval" where
  "W K_price = Fin 0.30"
| "W K_bed = Fin 0.18"
| "W K_bath = Fin 0.10"
| "W K_type = Fin 0.12"
| "W K_cond = Fin 0.08"
| "W K_year = Fin 0.07"
| "W K_size = Fin 0.07"
| "W K_loc = Fin 0.08"

text \<open>
  The columns that the two explaining functions read from a row: the eight similarity
  columns \<^verbatim>\<open>s_price\<close>, ..., \<^verbatim>\<open>s_loc\<close> and \<^verbatim>\<open>g_budget\<close>. A row (\<^verbatim>\<open>pd.Series\<close>)
  maps the columns it has to their values; \<^verbatim>\<open>row.get(k, d)\<close> is \<open>get row k d\<close>.
\<close>

datatype column =
  S_price | S_bed | S_bath | S_type | S_cond | S_year | S_size | S_loc | G_budget

type_synonym series = "column \<rightharpoonup> pyobj"

definition get :: "series \<Rightarrow> column \<Rightarrow> pyobj \<Rightarrow> pyobj" where
  "get row k d = (case row k of Some v \<Rightarrow> v | None \<Rightarrow> d)"

section \<open>Weighted contributions\<close>

text \<open>The dictionary \<^verbatim>\<open>parts\<close> of \<^verbatim>\<open>compute_weighted_contributions\<close>, in insertion order.\<close>

definition parts :: "(real \<Rightarrow> real \<Rightarrow> fval) \<Rightarrow> series \<Rightarrow> (wkey \<times> fval) list" where
  "parts fl_mul row =
     [(K_price, fmul fl_mul (W K_price) (clamp01 (get row S_price (Numeric (Fin 0.5))))),
      (K_bed, fmul fl_mul (W K_bed) (clamp01 (get row S_bed (Numeric (Fin 0.5))))),
      (K_bath, fmul fl_mul (W K_bath) (clamp01 (get row S_bath (Numeric (Fin 0.5))))),
      (K_type, fmul fl_mul (W K_type) (clamp01 (get row S_type (Numeric (Fin 0.5))))),
      (K_cond, fmul fl_mul (W K_cond) (clamp01 (get row S_cond (Numeric (Fin 0.5))))),
      (K_year, fmul fl_mul (W K_year) (clamp01 (get row S_year (Numeric (Fin 0.5))))),
      (K_size, fmul fl_mul (W K_size) (clamp01 (get row S_size (Numeric (Fin 0.5))))),
      (K_loc, fmul fl_mul (W K_loc) (clamp01 (get row S_loc (Numeric (Fin 0.5)))))]"

text \<open>
  \<^verbatim>\<open>compute_weighted_contributions\<close> hands the table of \<open>parts\<close> to the data frame
  library: \<^verbatim>\<open>out.sort_values("weighted_contribution", ascending=False)\<close>. The library's
  sort is a parameter here (its first argument is the \<^verbatim>\<open>ascending\<close> flag): the source
  leaves the algorithm at the library's default \<^verbatim>\<open>kind="quicksort"\<close>, which the library
  does not document as stable, and nothing below assumes an order among rows with equal
  keys.
\<close>

definition compute_weighted_contributions ::
  "(real \<Rightarrow> real \<Rightarrow> fval) \<Rightarrow> (bool \<Rightarrow> (wkey \<times> fval) list \<Rightarrow> (wkey \<times> fval) list) \<Rightarrow>
   series \<Rightarrow> (wkey \<times> fval) list" where
  "compute_weighted_contributions fl_mul sort_values row = sort_values False (parts fl_mul row)"

section \<open>The reason text\<close>

text \<open>The table \<^verbatim>\<open>mapping\<close> of \<^verbatim>\<open>generate_reason\<close>, in insertion order.\<close>

definition mapping :: "(column \<times> pystr) list" where
  "mapping =
     [(S_price, str ''price fit''),
      (S_bed, str ''bedroom match''),
      (S_bath, str ''bathroom match''),
      (S_type, str ''property type match''),
      (S_cond, str ''condition match''),
      (S_year, str ''modernity/year match''),
      (S_size, str ''size/spaciousness match''),
      (S_loc, str ''location intent match'')]"

text \<open>The budget gate as \<^verbatim>\<open>generate_reason\<close> reads it.\<close>

definition budget_gate :: "series \<Rightarrow> fval" where
  "budget_gate row = safe_float (get row G_budget (Numeric NaN)) NaN"

text \<open>\<^verbatim>\<open>bullets\<close> after the budget step.\<close>

definition budget_bullets :: "series \<Rightarrow> pystr list" where
  "budget_bullets row =
     (let g = budget_gate row in
      if \<not> isnan g then
        (if fge g (Fin 0.98) then [str ''within budget'']
         else if fge g (Fin 0.85) then [str ''slightly above budget (small penalty)'']
         else [str ''over budget (strong penalty)''])
      else [])"

text \<open>The lists \<^verbatim>\<open>strong\<close> and \<^verbatim>\<open>weak\<close>.\<close>

definition strong :: "series \<Rightarrow> pystr list" where
  "strong row =
     map snd (filter (\<lambda>(k, label). fge (clamp01 (get row k (Numeric (Fin 0.5)))) (Fin 0.80)) mapping)"

definition weak :: "series \<Rightarrow> pystr list" where
  "weak row =
     map snd (filter (\<lambda>(k, label). fle (clamp01 (get row k (Numeric (Fin 0.5)))) (Fin 0.35)) mapping)"

text \<open>\<^verbatim>\<open>bullets\<close> after the strong-components step, and at the end.\<close>

definition strong_bullets :: "series \<Rightarrow> pystr list" where
  "strong_bullets row =
     budget_bullets row @
     (if strong row \<noteq> [] then [str ''strong on: '' @ join (str '', '') (take 3 (strong row))]
      else [])"

definition bullets :: "series \<Rightarrow> pystr list" where
  "bullets row =
     strong_bullets row @
     (if weak row \<noteq> [] \<and> length (strong_bullets row) < 2
      then [str ''trade-offs: '' @ join (str '', '') (take 2 (weak row))]
      else [])"

definition generate_reason :: "series \<Rightarrow> pystr" where
  "generate_reason row =
     (if bullets row = [] then str ''Balanced match across constraints and preferences.''
      else capitalize (join (str '' '' @ [8226] @ str '' '') (bullets row)) @ str ''.'')"

section \<open>Filtering\<close>

text \<open>
  A row of the normalised data frame: the identifier and the categorical columns are
  text, the numeric columns are floats (not-a-number where a value was missing or did
  not parse). The columns that no function below reads are left out.
\<close>

record row =
  Property_ID :: pystr
  Location :: pystr
  Type :: pystr
  Condition :: pystr
  Price :: fval
  Size :: fval
  Year_Built :: fval
  MatchScore :: fval
  g_budget :: fval

text \<open>
  \<^verbatim>\<open>apply_filters\<close>. A list filter applies when the list is not empty, a range filter
  when the range is not \<^verbatim>\<open>None\<close>; the two thresholds always apply.
\<close>

definition apply_filters ::
  "row list \<Rightarrow> pystr list \<Rightarrow> pystr list \<Rightarrow> pystr list \<Rightarrow> (fval \<times> fval) option \<Rightarrow>
   (fval \<times> fval) option \<Rightarrow> fval \<Rightarrow> fval \<Rightarrow> row list" where
  "apply_filters df loc_filter type_filter cond_filter price_range size_range min_score
     min_budget_gate =
     (let out = df;
          out = (if loc_filter \<noteq> [] then filter (\<lambda>r. Location r \<in> set loc_filter) out else out);
          out = (if type_filter \<noteq> [] then filter (\<lambda>r. Type r \<in> set type_filter) out else out);
          out = (if cond_filter \<noteq> [] then filter (\<lambda>r. Condition r \<in> set cond_filter) out else out);
          out = (case price_range of
                   Some (lo, hi) \<Rightarrow> filter (\<lambda>r. fge (Price r) lo \<and> fle (Price r) hi) out
                 | None \<Rightarrow> out);
          out = (case size_range of
                   Some (lo, hi) \<Rightarrow> filter (\<lambda>r. fge (Size r) lo \<and> fle (Size r) hi) out
                 | None \<Rightarrow> out);
          out = filter (\<lambda>r. fge (MatchScore r) min_score) out;
          out = filter (\<lambda>r. fge (g_budget r) min_budget_gate) out
      in out)"

section \<open>Sorting, searching and the top K\<close>

text \<open>The choices of \<^verbatim>\<open>sort_col_map\<close>: a column and the \<^verbatim>\<open>ascending\<close> flag.\<close>

datatype sort_col = Col_MatchScore | Col_Price | Col_Size | Col_Year_Built | Col_g_budget

datatype sort_choice =
  MatchScore_desc | Price_asc | Price_desc | Size_desc | Year_Built_desc | Budget_gate_desc

fun sort_col_map :: "sort_choice \<Rightarrow> sort_col \<times> bool" where
  "sort_col_map MatchScore_desc = (Col_MatchScore, False)"
| "sort_col_map Price_asc = (Col_Price, True)"
| "sort_col_map Price_desc = (Col_Price, False)"
| "sort_col_map Size_desc = (Col_Size, False)"
| "sort_col_map Year_Built_desc = (Col_Year_Built, False)"
| "sort_col_map Budget_gate_desc = (Col_g_budget, False)"

text \<open>
  The search step: when the stripped search text is not empty, keep the rows whose
  \<^verbatim>\<open>Property ID\<close> the pattern is found in.
\<close>

definition search_property_id :: "pystr \<Rightarrow> row list \<Rightarrow> row list option" where
  "search_property_id search_pid filtered =
     (if strip search_pid \<noteq> [] then
        (case re_compile (strip search_pid) of
           None \<Rightarrow> None
         | Some p \<Rightarrow> Some (filter (\<lambda>r. re_search p (Property_ID r)) filtered))
      else Some filtered)"

text \<open>
  The steps from the filtered frame to \<^verbatim>\<open>display_df\<close>: sort, search, \<^verbatim>\<open>head(top_k)\<close>.
  The library's \<^verbatim>\<open>sort_values(sort_col, ascending=ascending)\<close> is a parameter, as above.
\<close>

definition display_df ::
  "(sort_col \<Rightarrow> bool \<Rightarrow> row list \<Rightarrow> row list) \<Rightarrow> sort_choice \<Rightarrow> pystr \<Rightarrow> nat \<Rightarrow>
   row list \<Rightarrow> row list option" where
  "display_df sort_values sort_choice search_pid top_k filtered =
     (let (sort_col, ascending) = sort_col_map sort_choice;
          filtered = sort_values sort_col ascending filtered
      in map_option (take top_k) (search_property_id search_pid filtered))"

text \<open>
  One behaviour the library's sort can have, for running examples: rows whose key is
  not-a-number go last, the others are sorted by insertion; a descending sort reverses
  before and after, as \<^verbatim>\<open>pandas\<close> does.
\<close>

fun column_value :: "sort_col \<Rightarrow> row \<Rightarrow> fval" where
  "column_value Col_MatchScore r = MatchScore r"
| "column_value Col_Price r = Price r"
| "column_value Col_Size r = Size r"
| "column_value Col_Year_Built r = Year_Built r"
| "column_value Col_g_budget r = g_budget r"

fun insert_by :: "('a \<Rightarrow> fval) \<Rightarrow> 'a \<Rightarrow> 'a list \<Rightarrow> 'a list" where
  "insert_by key x [] = [x]"
| "insert_by key x (y # ys) =
     (if fle (key x) (key y) then x # y # ys else y # insert_by key x ys)"

definition insertion_sort_by :: "('a \<Rightarrow> fval) \<Rightarrow> bool \<Rightarrow> 'a list \<Rightarrow> 'a list" where
  "insertion_sort_by key ascending df =
     (let non_nans = filter (\<lambda>r. \<not> isnan (key r)) df;
          nans = filter (\<lambda>r. isnan (key r)) df
      in (if ascending then foldr (insert_by key) non_nans []
          else rev (foldr (insert_by key) (rev non_nans) [])) @ nans)"

section \<open>Notions used in the statements\<close>

text \<open>The similarity column that the line of \<open>parts\<close> for a key reads, and its entry.\<close>

fun comp_col :: "wkey \<Rightarrow> column" where
  "comp_col K_price = S_price"
| "comp_col K_bed = S_bed"
| "comp_col K_bath = S_bath"
| "comp_col K_type = S_type"
| "comp_col K_cond = S_cond"
| "comp_col K_year = S_year"
| "comp_col K_size = S_size"
| "comp_col K_loc = S_loc"

definition contribution :: "(real \<Rightarrow> real \<Rightarrow> fval) \<Rightarrow> series \<Rightarrow> wkey \<Rightarrow> fval" where
  "contribution fl_mul row w =
     fmul fl_mul (W w) (clamp01 (get row (comp_col w) (Numeric (Fin 0.5))))"

definition wkeys :: "wkey list" where
  "wkeys = [K_price, K_bed, K_bath, K_type, K_cond, K_year, K_size, K_loc]"

text \<open>
  A contribution table is in descending order when each value is \<^verbatim>\<open>>=\<close> the next one.
\<close>

definition descending :: "(wkey \<times> fval) list \<Rightarrow> bool" where
  "descending out = successively (\<lambda>a b. fge (snd a) (snd b)) out"

text \<open>The three texts of the budget clause.\<close>

definition budget_clause :: "pystr \<Rightarrow> bool" where
  "budget_clause b =
     (b = str ''within budget'' \<or> b = str ''slightly above budget (small penalty)''
      \<or> b = str ''over budget (strong penalty)'')"

text \<open>A clause is the trade-offs clause when it starts with \<^verbatim>\<open>trade-offs: \<close>.\<close>

definition tradeoffs_clause :: "pystr \<Rightarrow> bool" where
  "tradeoffs_clause b = prefix (str ''trade-offs: '') b"

subsection \<open>Example rows\<close>

definition example_row :: "string \<Rightarrow> fval \<Rightarrow> row" where
  "example_row pid score =
     \<lparr>Property_ID = str pid, Location = str ''Austin'', Type = str ''House'',
      Condition = str ''Good'', Price = Fin 350000, Size = Fin 1800, Year_Built = Fin 2005,
      MatchScore = score, g_budget = Fin 1\<rparr>"

definition example_series :: "pyobj \<Rightarrow> pyobj \<Rightarrow> series" where
  "example_series g p = [G_budget \<mapsto> g, S_price \<mapsto> p]"

section \<open>Properties of the helpers\<close>

lemma clamp01_Fin:
  "clamp01 (Numeric (Fin a)) = Fin (if a \<le> 0 then 0 else if a \<le> 1 then a else 1)"
  by (simp add: clamp01_def safe_float_def clip_def fmaximum_def fminimum_def isnan_def)

lemma clamp01_simps:
  "clamp01 Unparseable = Fin 0"
  "clamp01 (Numeric NaN) = NaN"
  "clamp01 (Numeric NInf) = Fin 0"
  "clamp01 (Numeric PInf) = Fin 1"
  by (simp_all add: clamp01_def safe_float_def clip_def fmaximum_def fminimum_def isnan_def)

lemma clamp01_cases:
  obtains (nan) "x = Numeric NaN" "clamp01 x = NaN"
        | (unit) c where "x \<noteq> Numeric NaN" "clamp01 x = Fin c" "0 \<le> c" "c \<le> 1"
proof (cases x)
  case Unparseable
  then show ?thesis using unit [of 0] by (simp add: clamp01_simps)
next
  case (Numeric f)
  then show ?thesis
  proof (cases f)
    case NaN
    with Numeric show ?thesis using nan by (simp add: clamp01_simps)
  next
    case NInf
    with Numeric show ?thesis using unit [of 0] by (simp add: clamp01_simps)
  next
    case PInf
    with Numeric show ?thesis using unit [of 1] by (simp add: clamp01_simps)
  next
    case (Fin a)
    with Numeric show ?thesis
      using unit [of "if a \<le> 0 then 0 else if a \<le> 1 then a else 1"]
      by (simp add: clamp01_Fin)
  qed
qed

lemma clamp01_in_unit_interval:
  assumes "x \<noteq> Numeric NaN"
  shows "fle (Fin 0) (clamp01 x) \<and> fle (clamp01 x) (Fin 1)"
  using assms by (cases x rule: clamp01_cases) simp_all

lemma clamp01_idempotent:
  assumes "x \<noteq> Numeric NaN"
  shows "clamp01 (Numeric (clamp01 x)) = clamp01 x"
  using assms by (cases x rule: clamp01_cases) (simp_all add: clamp01_Fin)

text \<open>
  C6. The claim: for every input, \<open>clamp01 x\<close> lies in [0,1] and \<open>clamp01\<close> is idempotent.
  Evaluated at not-a-number: \<^verbatim>\<open>float(nan)\<close> does not raise, so the default 0.0 is not
  used, and \<^verbatim>\<open>np.clip\<close> propagates not-a-number. The result is not-a-number, which is
  neither at least 0 nor at most 1, and which is not equal (\<^verbatim>\<open>==\<close>) to itself.
\<close>

theorem clamp01_nan_escapes:
  "clamp01 (Numeric NaN) = NaN
   \<and> \<not> fle (Fin 0) (clamp01 (Numeric NaN))
   \<and> \<not> fle (clamp01 (Numeric NaN)) (Fin 1)
   \<and> \<not> feq (clamp01 (Numeric (clamp01 (Numeric NaN)))) (clamp01 (Numeric NaN))"
  by (simp add: clamp01_simps feq_def)

lemma fle_NaN_right: "\<not> fle a NaN"
  by (cases a) simp_all

lemma fge_NaN: "\<not> fge NaN b" "\<not> fge a NaN"
  by (simp_all add: fge_def fle_NaN_right)

lemma flt_Fin_cases:
  assumes "flt g (Fin b)"
  obtains "g = NInf" | a where "g = Fin a" "a < b"
  using assms by (cases g) (auto simp: flt_def)

section \<open>Properties of the weighted contributions\<close>

lemma parts_eq: "parts fl_mul row = map (\<lambda>w. (w, contribution fl_mul row w)) wkeys"
  by (simp add: parts_def wkeys_def contribution_def)

lemma W_bounds: "fle (Fin 0) (W w) \<and> fle (W w) (Fin 1)"
  by (cases w) simp_all

lemma W_Fin: "\<exists>a. W w = Fin a \<and> 0 \<le> a"
  using W_bounds [of w] by (cases "W w") simp_all

lemma weak_iff:
  "label \<in> set (weak row) \<longleftrightarrow>
   (\<exists>k. (k, label) \<in> set mapping \<and> fle (clamp01 (get row k (Numeric (Fin 0.5)))) (Fin 0.35))"
  by (force simp: weak_def)

lemma mset_insert_by: "mset (insert_by key x ys) = add_mset x (mset ys)"
  by (induction ys) simp_all

lemma mset_foldr_insert_by: "mset (foldr (insert_by key) xs []) = mset xs"
  by (induction xs) (simp_all add: mset_insert_by)

lemma mset_insertion_sort_by: "mset (insertion_sort_by key ascending df) = mset df"
proof -
  have "mset (filter (\<lambda>r. \<not> isnan (key r)) df) + mset (filter (\<lambda>r. isnan (key r)) df) = mset df"
    by (induction df) simp_all
  then show ?thesis
    by (simp add: insertion_sort_by_def Let_def mset_foldr_insert_by)
qed

lemma successively_isolated:
  assumes "x \<in> set xs" and "2 \<le> length xs" and "\<And>y. \<not> P x y" and "\<And>y. \<not> P y x"
  shows "\<not> successively P xs"
  using assms(1,2)
proof (induction xs rule: induct_list012)
  case 1
  then show ?case by simp
next
  case (2 a)
  then show ?case by simp
next
  case (3 a b xs)
  show ?case
  proof (cases "x = a \<or> x = b")
    case True
    then show ?thesis using assms(3) [of b] assms(4) [of a] by auto
  next
    case False
    with 3 show ?thesis by (cases xs) auto
  qed
qed

lemma foldl_fadd_NaN: "foldl (fadd fl_add) NaN xs = NaN"
  by (induction xs) simp_all

lemma fadd_NaN_right: "fadd fl_add a NaN = NaN"
  by (cases a) simp_all

lemma foldl_fadd_contains_NaN: "NaN \<in> set xs \<Longrightarrow> foldl (fadd fl_add) a xs = NaN"
proof (induction xs arbitrary: a)
  case Nil
  then show ?case by simp
next
  case (Cons x xs)
  then show ?case
    by (cases "x = NaN") (simp_all add: fadd_NaN_right foldl_fadd_NaN)
qed

lemma nan_contribution_in_table:
  assumes "row (comp_col w) = Some (Numeric NaN)"
    and "mset (sort_values False (parts fl_mul row)) = mset (parts fl_mul row)"
  shows "(w, NaN) \<in> set (compute_weighted_contributions fl_mul sort_values row)"
proof -
  have "contribution fl_mul row w = NaN"
    using assms(1) W_Fin [of w] by (auto simp: contribution_def get_def clamp01_simps)
  moreover have "w \<in> set wkeys"
    by (cases w) (simp_all add: wkeys_def)
  ultimately have "(w, NaN) \<in> set (parts fl_mul row)"
    by (force simp: parts_eq)
  then show ?thesis
    using assms(2) by (metis compute_weighted_contributions_def set_mset_mset)
qed

text \<open>
  C9. The claim: for every record, raw records with not-a-number similarity values
  included, each contribution is at most the weight of its component and the
  contributions sum to at most the sum of the eight weights. Evaluated at a raw row with
  a similarity column that is not-a-number: \<open>clamp01\<close> lets it through, so the
  contribution of that component is not-a-number, which is not at most its weight, and
  the sum of the contributions is not-a-number, which is not at most the sum of the
  weights. This holds whichever order the library's sort, which only permutes the rows,
  gives the table.
\<close>

theorem contributions_nan_exceed:
  assumes "row (comp_col w) = Some (Numeric NaN)"
    and "mset (sort_values False (parts fl_mul row)) = mset (parts fl_mul row)"
  shows "(w, NaN) \<in> set (compute_weighted_contributions fl_mul sort_values row)
         \<and> \<not> fle NaN (W w)
         \<and> fsum fl_add (map snd (compute_weighted_contributions fl_mul sort_values row)) = NaN
         \<and> \<not> fle (fsum fl_add (map snd (compute_weighted_contributions fl_mul sort_values row)))
               (fsum fl_add (map W wkeys))"
proof -
  have i: "(w, NaN) \<in> set (compute_weighted_contributions fl_mul sort_values row)"
    using assms by (rule nan_contribution_in_table)
  then have "NaN \<in> set (map snd (compute_weighted_contributions fl_mul sort_values row))"
    by force
  then have "fsum fl_add (map snd (compute_weighted_contributions fl_mul sort_values row)) = NaN"
    unfolding fsum_def by (rule foldl_fadd_contains_NaN)
  with i show ?thesis by simp
qed

theorem contributions_nan_exceed_witness:
  "example_series (Numeric (Fin 0.9)) (Numeric NaN) (comp_col K_price) = Some (Numeric NaN)
   \<and> (K_price, NaN) \<in> set (compute_weighted_contributions exact_mul (insertion_sort_by snd)
        (example_series (Numeric (Fin 0.9)) (Numeric NaN)))
   \<and> fsum exact_add (map snd (compute_weighted_contributions exact_mul (insertion_sort_by snd)
        (example_series (Numeric (Fin 0.9)) (Numeric NaN)))) = NaN"
proof -
  have h1: "example_series (Numeric (Fin 0.9)) (Numeric NaN) (comp_col K_price)
      = Some (Numeric NaN)"
    by (simp add: example_series_def)
  have h2: "mset (insertion_sort_by snd False
        (parts exact_mul (example_series (Numeric (Fin 0.9)) (Numeric NaN))))
      = mset (parts exact_mul (example_series (Numeric (Fin 0.9)) (Numeric NaN)))"
    by (rule mset_insertion_sort_by)
  note t = contributions_nan_exceed
    [where fl_mul = exact_mul and fl_add = exact_add
       and row = "example_series (Numeric (Fin 0.9)) (Numeric NaN)" and w = K_price
       and sort_values = "insertion_sort_by snd", OF h1 h2]
  show ?thesis
    by (intro conjI) (fact h1 t [THEN conjunct1] t [THEN conjunct2, THEN conjunct2, THEN conjunct1])+
qed

text \<open>
  C5. The claim: for every record the contribution table is sorted in descending order of
  value, equal values in the canonical order of the components. Evaluated at a raw row
  with a similarity column that is not-a-number: \<open>clamp01\<close> lets it through, the
  contribution is not-a-number, and no value is \<^verbatim>\<open>>=\<close> it nor it \<^verbatim>\<open>>=\<close> any value. So the
  table is not in descending order, whichever order the library's sort, which only
  permutes the rows, gives it.
\<close>

theorem contributions_nan_not_descending:
  assumes "row (comp_col w) = Some (Numeric NaN)"
    and "mset (sort_values False (parts fl_mul row)) = mset (parts fl_mul row)"
  shows "\<not> descending (compute_weighted_contributions fl_mul sort_values row)"
proof -
  let ?out = "compute_weighted_contributions fl_mul sort_values row"
  have m: "mset ?out = mset (parts fl_mul row)"
    using assms(2) by (simp add: compute_weighted_contributions_def)
  have "(w, NaN) \<in> set ?out"
    using assms by (rule nan_contribution_in_table)
  moreover have "length ?out = length (parts fl_mul row)"
    using m by (metis size_mset)
  then have "2 \<le> length ?out"
    by (simp add: parts_def)
  ultimately show ?thesis
    unfolding descending_def
    by (intro successively_isolated [where x = "(w, NaN)"]) (simp_all add: fge_NaN)
qed

theorem contributions_nan_not_descending_witness:
  "example_series Unparseable (Numeric NaN) (comp_col K_price) = Some (Numeric NaN)
   \<and> compute_weighted_contributions exact_mul (insertion_sort_by snd)
        (example_series Unparseable (Numeric NaN)) ! 7 = (K_price, NaN)
   \<and> \<not> descending (compute_weighted_contributions exact_mul (insertion_sort_by snd)
        (example_series Unparseable (Numeric NaN)))"
proof -
  have h1: "example_series Unparseable (Numeric NaN) (comp_col K_price) = Some (Numeric NaN)"
    by (simp add: example_series_def)
  have h2: "mset (insertion_sort_by snd False (parts exact_mul (example_series Unparseable (Numeric NaN))))
      = mset (parts exact_mul (example_series Unparseable (Numeric NaN)))"
    by (rule mset_insertion_sort_by)
  have e: "compute_weighted_contributions exact_mul (insertion_sort_by snd)
        (example_series Unparseable (Numeric NaN)) ! 7 = (K_price, NaN)"
    by (simp add: compute_weighted_contributions_def insertion_sort_by_def parts_def
        example_series_def get_def clamp01_simps clamp01_Fin isnan_def exact_mul_def)
  note t = contributions_nan_not_descending
    [where fl_mul = exact_mul
       and row = "example_series Unparseable (Numeric NaN)" and w = K_price
       and sort_values = "insertion_sort_by snd", OF h1 h2]
  show ?thesis
    by (intro conjI) (fact h1 e t)+
qed

text \<open>
  C10. In a raw row, a similarity column that is present but does not parse as a number
  is clamped to 0.0, the default of \<open>clamp01\<close>, whereas a missing column reads as the
  neutral 0.5. So the component's entry in the contribution table is 0 (whatever order
  the library's sort, which only permutes the rows, gives the table), and its label is
  among the weak components, those at or below 0.35.
\<close>

theorem unparseable_similarity_is_zero:
  assumes "row (comp_col w) = Some Unparseable"
    and "(comp_col w, label) \<in> set mapping"
    and "mset (sort_values False (parts fl_mul row)) = mset (parts fl_mul row)"
  shows "clamp01 (get row (comp_col w) (Numeric (Fin 0.5))) = Fin 0
         \<and> clamp01 (get (row(comp_col w := None)) (comp_col w) (Numeric (Fin 0.5))) = Fin 0.5
         \<and> contribution fl_mul row w = Fin 0
         \<and> (w, Fin 0) \<in> set (compute_weighted_contributions fl_mul sort_values row)
         \<and> label \<in> set (weak row)"
proof (intro conjI)
  show c0: "clamp01 (get row (comp_col w) (Numeric (Fin 0.5))) = Fin 0"
    using assms(1) by (simp add: get_def clamp01_simps)
  show "clamp01 (get (row(comp_col w := None)) (comp_col w) (Numeric (Fin 0.5))) = Fin 0.5"
    by (simp add: get_def clamp01_Fin)
  obtain a where "W w = Fin a" using W_Fin by blast
  with c0 show z: "contribution fl_mul row w = Fin 0"
    by (simp add: contribution_def)
  have "w \<in> set wkeys"
    by (cases w) (simp_all add: wkeys_def)
  with z have "(w, Fin 0) \<in> set (parts fl_mul row)"
    by (force simp: parts_eq)
  then have "(w, Fin 0) \<in># mset (parts fl_mul row)" by simp
  with assms(3) show "(w, Fin 0) \<in> set (compute_weighted_contributions fl_mul sort_values row)"
    by (metis compute_weighted_contributions_def set_mset_mset)
  show "label \<in> set (weak row)"
    using assms(2) c0 by (auto simp: weak_iff)
qed

theorem unparseable_similarity_is_zero_witness:
  "example_series (Numeric (Fin 0.9)) Unparseable (comp_col K_price) = Some Unparseable
   \<and> (K_price, Fin 0) \<in> set (compute_weighted_contributions exact_mul (insertion_sort_by snd)
        (example_series (Numeric (Fin 0.9)) Unparseable))
   \<and> str ''price fit'' \<in> set (weak (example_series (Numeric (Fin 0.9)) Unparseable))"
proof -
  have h1: "example_series (Numeric (Fin 0.9)) Unparseable (comp_col K_price) = Some Unparseable"
    by (simp add: example_series_def)
  have h2: "(comp_col K_price, str ''price fit'') \<in> set mapping"
    by (simp add: mapping_def)
  have h3: "mset (insertion_sort_by snd False (parts exact_mul (example_series (Numeric (Fin 0.9)) Unparseable)))
      = mset (parts exact_mul (example_series (Numeric (Fin 0.9)) Unparseable))"
    by (rule mset_insertion_sort_by)
  show ?thesis
    using h1
      unparseable_similarity_is_zero
        [where fl_mul = exact_mul
           and row = "example_series (Numeric (Fin 0.9)) Unparseable" and w = K_price
           and label = "str ''price fit''" and sort_values = "insertion_sort_by snd",
         OF h1 h2 h3]
    by simp
qed

section \<open>Properties of the reason text\<close>

lemma budget_bullets_nan: "isnan (budget_gate row) \<longleftrightarrow> budget_bullets row = []"
  by (simp add: budget_bullets_def Let_def)

lemma budget_bullets_within:
  "fge (budget_gate row) (Fin 0.98) \<Longrightarrow> budget_bullets row = [str ''within budget'']"
  by (auto simp: budget_bullets_def Let_def isnan_def fge_NaN)

lemma budget_bullets_slightly:
  assumes "fge (budget_gate row) (Fin 0.85)" and "flt (budget_gate row) (Fin 0.98)"
  shows "budget_bullets row = [str ''slightly above budget (small penalty)'']"
proof -
  from assms(2) have "\<not> fge (budget_gate row) (Fin 0.98)"
    by (simp add: flt_def fge_def)
  moreover from assms(1) have "\<not> isnan (budget_gate row)"
    by (auto simp: isnan_def fge_NaN)
  ultimately show ?thesis
    using assms(1) by (simp add: budget_bullets_def Let_def)
qed

lemma budget_bullets_over:
  assumes "flt (budget_gate row) (Fin 0.85)"
  shows "budget_bullets row = [str ''over budget (strong penalty)'']"
  using assms
  by (cases "budget_gate row" rule: flt_Fin_cases [where b = "0.85"])
     (auto simp: budget_bullets_def Let_def isnan_def fge_def)

lemma generate_reason_fallback:
  "bullets row = [] \<Longrightarrow>
   generate_reason row = str ''Balanced match across constraints and preferences.''"
  by (simp add: generate_reason_def)

lemma generate_reason_bullets:
  "bullets row \<noteq> [] \<Longrightarrow>
   generate_reason row = capitalize (join (str '' '' @ [8226] @ str '' '') (bullets row)) @ str ''.''"
  by (simp add: generate_reason_def)

lemma join_Cons: "\<exists>t. join sep (b # bs) = b @ t"
  by (cases bs) simp_all

lemma capitalize_append: "b \<noteq> [] \<Longrightarrow> capitalize (b @ t) = capitalize b @ map lower_char t"
  by (cases b) simp_all

lemma generate_reason_starts:
  assumes "bullets row = b # bs" and "b \<noteq> []"
  shows "prefix (capitalize b) (generate_reason row)"
proof -
  obtain t where "join (str '' '' @ [8226] @ str '' '') (b # bs) = b @ t"
    using join_Cons by blast
  then have "generate_reason row = capitalize b @ map lower_char t @ str ''.''"
    using assms by (simp add: generate_reason_bullets capitalize_append)
  then show ?thesis by simp
qed

lemma capitalize_budget_texts:
  "capitalize (str ''within budget'') = str ''Within budget''"
  "capitalize (str ''slightly above budget (small penalty)'')
     = str ''Slightly above budget (small penalty)''"
  "capitalize (str ''over budget (strong penalty)'') = str ''Over budget (strong penalty)''"
  by (simp_all add: str_def upper_char_def lower_char_def)

lemma bullets_rest:
  "\<exists>rest. bullets row = budget_bullets row @ rest \<and> (\<forall>b \<in> set rest. \<not> budget_clause b)"
proof -
  let ?rest = "(if strong row \<noteq> []
       then [str ''strong on: '' @ join (str '', '') (take 3 (strong row))] else [])
     @ (if weak row \<noteq> [] \<and> length (strong_bullets row) < 2
       then [str ''trade-offs: '' @ join (str '', '') (take 2 (weak row))] else [])"
  have "bullets row = budget_bullets row @ ?rest"
    by (simp add: bullets_def strong_bullets_def)
  moreover have "\<forall>b \<in> set ?rest. \<not> budget_clause b"
    by (auto simp: budget_clause_def str_def)
  ultimately show ?thesis by blast
qed

lemma reason_without_budget:
  assumes "budget_bullets row = []"
  shows "\<not> prefix (str ''Within budget'') (generate_reason row)
       \<and> \<not> prefix (str ''Slightly above budget (small penalty)'') (generate_reason row)
       \<and> \<not> prefix (str ''Over budget (strong penalty)'') (generate_reason row)"
proof (cases "strong row = []")
  case True
  show ?thesis
  proof (cases "weak row = []")
    case True
    with \<open>strong row = []\<close> assms have "bullets row = []"
      by (simp add: bullets_def strong_bullets_def)
    then have "generate_reason row = str ''Balanced match across constraints and preferences.''"
      by (simp add: generate_reason_def)
    then show ?thesis by (simp add: str_def)
  next
    case False
    with \<open>strong row = []\<close> assms
    have "bullets row = [str ''trade-offs: '' @ join (str '', '') (take 2 (weak row))]"
      by (simp add: bullets_def strong_bullets_def)
    then have "prefix (capitalize (str ''trade-offs: '' @ join (str '', '') (take 2 (weak row))))
        (generate_reason row)"
      by (rule generate_reason_starts) (simp add: str_def)
    then obtain u where "generate_reason row = 84 # u"
      by (auto simp: str_def upper_char_def prefix_def)
    then show ?thesis by (simp add: str_def)
  qed
next
  case False
  with assms obtain bs where
    "bullets row = (str ''strong on: '' @ join (str '', '') (take 3 (strong row))) # bs"
    by (simp add: bullets_def strong_bullets_def)
  then have "prefix (capitalize (str ''strong on: '' @ join (str '', '') (take 3 (strong row))))
      (generate_reason row)"
    by (rule generate_reason_starts) (simp add: str_def)
  then obtain u where "generate_reason row = 83 # 116 # u"
    by (auto simp: str_def upper_char_def lower_char_def prefix_def)
  then show ?thesis by (simp add: str_def)
qed

text \<open>
  C8. With the budget gate read as \<^verbatim>\<open>generate_reason\<close> reads it, the budget clause is
  omitted exactly when the gate is not-a-number; it is "within budget" when the gate is at
  least 0.98, "slightly above budget (small penalty)" when the gate is at least 0.85 and
  below 0.98, and "over budget (strong penalty)" when it is below 0.85. The budget clause
  comes first among the clauses and no later clause is a budget clause. The text
  \<^verbatim>\<open>generate_reason\<close> returns is the fixed fallback when there is no clause at all, and
  otherwise the clauses joined by the bullet, capitalised, with a full stop: so it
  starts with the capitalised budget clause in the three cases, and with none of the
  three when the gate is not-a-number.
\<close>

theorem budget_clause_and_fallback:
  "(isnan (budget_gate row) \<longleftrightarrow> budget_bullets row = [])
   \<and> (fge (budget_gate row) (Fin 0.98) \<longrightarrow> budget_bullets row = [str ''within budget''])
   \<and> (fge (budget_gate row) (Fin 0.85) \<and> flt (budget_gate row) (Fin 0.98) \<longrightarrow>
        budget_bullets row = [str ''slightly above budget (small penalty)''])
   \<and> (flt (budget_gate row) (Fin 0.85) \<longrightarrow>
        budget_bullets row = [str ''over budget (strong penalty)''])
   \<and> (\<exists>rest. bullets row = budget_bullets row @ rest \<and> (\<forall>b \<in> set rest. \<not> budget_clause b))
   \<and> (bullets row = [] \<longrightarrow>
        generate_reason row = str ''Balanced match across constraints and preferences.'')
   \<and> (bullets row \<noteq> [] \<longrightarrow>
        generate_reason row
          = capitalize (join (str '' '' @ [8226] @ str '' '') (bullets row)) @ str ''.'')
   \<and> (fge (budget_gate row) (Fin 0.98) \<longrightarrow>
        prefix (str ''Within budget'') (generate_reason row))
   \<and> (fge (budget_gate row) (Fin 0.85) \<and> flt (budget_gate row) (Fin 0.98) \<longrightarrow>
        prefix (str ''Slightly above budget (small penalty)'') (generate_reason row))
   \<and> (flt (budget_gate row) (Fin 0.85) \<longrightarrow>
        prefix (str ''Over budget (strong penalty)'') (generate_reason row))
   \<and> (isnan (budget_gate row) \<longrightarrow>
        \<not> prefix (str ''Within budget'') (generate_reason row)
        \<and> \<not> prefix (str ''Slightly above budget (small penalty)'') (generate_reason row)
        \<and> \<not> prefix (str ''Over budget (strong penalty)'') (generate_reason row))"
proof -
  have starts: "prefix (capitalize b) (generate_reason row)"
    if "budget_bullets row = [b]" and "b \<noteq> []" for b
  proof -
    from that(1) obtain bs where "bullets row = b # bs"
      by (simp add: bullets_def strong_bullets_def)
    then show ?thesis using that(2) by (rule generate_reason_starts)
  qed
  have w: "prefix (str ''Within budget'') (generate_reason row)"
    if "fge (budget_gate row) (Fin 0.98)"
    using starts [OF budget_bullets_within [OF that]]
    by (simp add: capitalize_budget_texts) (simp add: str_def)
  have s: "prefix (str ''Slightly above budget (small penalty)'') (generate_reason row)"
    if "fge (budget_gate row) (Fin 0.85) \<and> flt (budget_gate row) (Fin 0.98)"
    using starts [OF budget_bullets_slightly] that
    by (simp add: capitalize_budget_texts) (simp add: str_def)
  have o: "prefix (str ''Over budget (strong penalty)'') (generate_reason row)"
    if "flt (budget_gate row) (Fin 0.85)"
    using starts [OF budget_bullets_over [OF that]]
    by (simp add: capitalize_budget_texts) (simp add: str_def)
  have n: "\<not> prefix (str ''Within budget'') (generate_reason row)
        \<and> \<not> prefix (str ''Slightly above budget (small penalty)'') (generate_reason row)
        \<and> \<not> prefix (str ''Over budget (strong penalty)'') (generate_reason row)"
    if "isnan (budget_gate row)"
    using that budget_bullets_nan [of row] by (intro reason_without_budget) simp
  show ?thesis
    using budget_bullets_nan [of row] budget_bullets_within [of row]
      budget_bullets_slightly [of row] budget_bullets_over [of row] bullets_rest [of row]
      generate_reason_fallback [of row] generate_reason_bullets [of row] w s o n
    by (intro conjI impI) (assumption | blast)+
qed

lemma example_budget_gate:
  "budget_gate (example_series g p) = safe_float g NaN"
  by (simp add: budget_gate_def get_def example_series_def)

lemma example_similarities:
  "get (example_series g p) S_price d = p"
  "k \<noteq> S_price \<Longrightarrow> k \<noteq> G_budget \<Longrightarrow> get (example_series g p) k d = d"
  by (simp_all add: get_def example_series_def)

lemma example_strong_weak:
  "strong (example_series g p) = (if fge (clamp01 p) (Fin 0.80) then [str ''price fit''] else [])"
  "weak (example_series g p) = (if fle (clamp01 p) (Fin 0.35) then [str ''price fit''] else [])"
  by (simp_all add: strong_def weak_def mapping_def example_similarities clamp01_Fin fge_def)

theorem budget_clause_and_fallback_witness:
  "fge (budget_gate (example_series (Numeric (Fin 0.99)) (Numeric (Fin 0.5)))) (Fin 0.98)
   \<and> budget_bullets (example_series (Numeric (Fin 0.99)) (Numeric (Fin 0.5)))
       = [str ''within budget'']
   \<and> fge (budget_gate (example_series (Numeric (Fin 0.9)) (Numeric (Fin 0.5)))) (Fin 0.85)
   \<and> flt (budget_gate (example_series (Numeric (Fin 0.9)) (Numeric (Fin 0.5)))) (Fin 0.98)
   \<and> budget_bullets (example_series (Numeric (Fin 0.9)) (Numeric (Fin 0.5)))
       = [str ''slightly above budget (small penalty)'']
   \<and> flt (budget_gate (example_series (Numeric (Fin 0.5)) (Numeric (Fin 0.5)))) (Fin 0.85)
   \<and> budget_bullets (example_series (Numeric (Fin 0.5)) (Numeric (Fin 0.5)))
       = [str ''over budget (strong penalty)'']
   \<and> isnan (budget_gate (example_series Unparseable (Numeric (Fin 0.5))))
   \<and> bullets (example_series Unparseable (Numeric (Fin 0.5))) = []
   \<and> generate_reason (example_series Unparseable (Numeric (Fin 0.5)))
       = str ''Balanced match across constraints and preferences.''
   \<and> bullets (example_series (Numeric (Fin 0.99)) (Numeric (Fin 0.5))) \<noteq> []
   \<and> generate_reason (example_series (Numeric (Fin 0.99)) (Numeric (Fin 0.5)))
       = capitalize (join (str '' '' @ [8226] @ str '' '')
           (bullets (example_series (Numeric (Fin 0.99)) (Numeric (Fin 0.5))))) @ str ''.''
   \<and> generate_reason (example_series (Numeric (Fin 0.99)) (Numeric (Fin 0.5)))
       = str ''Within budget.''
   \<and> prefix (str ''Within budget'')
        (generate_reason (example_series (Numeric (Fin 0.99)) (Numeric (Fin 0.5))))
   \<and> prefix (str ''Slightly above budget (small penalty)'')
        (generate_reason (example_series (Numeric (Fin 0.9)) (Numeric (Fin 0.5))))
   \<and> prefix (str ''Over budget (strong penalty)'')
        (generate_reason (example_series (Numeric (Fin 0.5)) (Numeric (Fin 0.5))))
   \<and> \<not> prefix (str ''Within budget'')
        (generate_reason (example_series Unparseable (Numeric (Fin 0.5))))"
proof -
  have h1: "fge (budget_gate (example_series (Numeric (Fin 0.99)) (Numeric (Fin 0.5)))) (Fin 0.98)"
    by (simp add: example_budget_gate safe_float_def fge_def)
  have h2: "fge (budget_gate (example_series (Numeric (Fin 0.9)) (Numeric (Fin 0.5)))) (Fin 0.85)
      \<and> flt (budget_gate (example_series (Numeric (Fin 0.9)) (Numeric (Fin 0.5)))) (Fin 0.98)"
    by (simp add: example_budget_gate safe_float_def fge_def flt_def)
  have h3: "flt (budget_gate (example_series (Numeric (Fin 0.5)) (Numeric (Fin 0.5)))) (Fin 0.85)"
    by (simp add: example_budget_gate safe_float_def flt_def)
  have h4: "isnan (budget_gate (example_series Unparseable (Numeric (Fin 0.5))))"
    by (simp add: example_budget_gate safe_float_def isnan_def)
  have h5: "bullets (example_series Unparseable (Numeric (Fin 0.5))) = []"
    using h4
    by (simp add: bullets_def strong_bullets_def budget_bullets_def example_strong_weak
        clamp01_Fin fge_def)
  have h6: "bullets (example_series (Numeric (Fin 0.99)) (Numeric (Fin 0.5))) \<noteq> []"
    by (simp add: bullets_def strong_bullets_def budget_bullets_def example_budget_gate
        safe_float_def isnan_def fge_def)
  have e: "generate_reason (example_series (Numeric (Fin 0.99)) (Numeric (Fin 0.5)))
      = str ''Within budget.''"
    by (simp add: generate_reason_def bullets_def strong_bullets_def budget_bullets_def
        example_budget_gate safe_float_def isnan_def example_strong_weak clamp01_Fin fge_def)
      (simp add: str_def upper_char_def lower_char_def)
  note w = budget_clause_and_fallback [of "example_series (Numeric (Fin 0.99)) (Numeric (Fin 0.5))"]
  note s = budget_clause_and_fallback [of "example_series (Numeric (Fin 0.9)) (Numeric (Fin 0.5))"]
  note o = budget_clause_and_fallback [of "example_series (Numeric (Fin 0.5)) (Numeric (Fin 0.5))"]
  note f = budget_clause_and_fallback [of "example_series Unparseable (Numeric (Fin 0.5))"]
  note t1 = w [THEN conjunct2, THEN conjunct1, THEN mp, OF h1]
  note t2 = s [THEN conjunct2, THEN conjunct2, THEN conjunct1, THEN mp, OF h2]
  note t3 = o [THEN conjunct2, THEN conjunct2, THEN conjunct2, THEN conjunct1, THEN mp, OF h3]
  note t4 = f [THEN conjunct2, THEN conjunct2, THEN conjunct2, THEN conjunct2, THEN conjunct2,
      THEN conjunct1, THEN mp, OF h5]
  note t5 = w [THEN conjunct2, THEN conjunct2, THEN conjunct2, THEN conjunct2, THEN conjunct2,
      THEN conjunct2, THEN conjunct1, THEN mp, OF h6]
  note t6 = w [THEN conjunct2, THEN conjunct2, THEN conjunct2, THEN conjunct2, THEN conjunct2,
      THEN conjunct2, THEN conjunct2, THEN conjunct1, THEN mp, OF h1]
  note t7 = s [THEN conjunct2, THEN conjunct2, THEN conjunct2, THEN conjunct2, THEN conjunct2,
      THEN conjunct2, THEN conjunct2, THEN conjunct2, THEN conjunct1, THEN mp, OF h2]
  note t8 = o [THEN conjunct2, THEN conjunct2, THEN conjunct2, THEN conjunct2, THEN conjunct2,
      THEN conjunct2, THEN conjunct2, THEN conjunct2, THEN conjunct2, THEN conjunct1, THEN mp,
      OF h3]
  note t9 = f [THEN conjunct2, THEN conjunct2, THEN conjunct2, THEN conjunct2, THEN conjunct2,
      THEN conjunct2, THEN conjunct2, THEN conjunct2, THEN conjunct2, THEN conjunct2, THEN mp,
      OF h4, THEN conjunct1]
  show ?thesis
    by (intro conjI)
      (fact h1 t1 h2 [THEN conjunct1] h2 [THEN conjunct2] t2 h3 t3 h4 h5 t4 h6 t5 e t6 t7 t8 t9)+
qed

text \<open>
  A row with budget gate 0.99 and price similarity 0.95, the other similarities absent:
  two clauses, joined by the bullet, the first letter in upper case, a full stop at the
  end.
\<close>

lemma generate_reason_example:
  "generate_reason (example_series (Numeric (Fin 0.99)) (Numeric (Fin 0.95)))
     = str ''Within budget '' @ [8226] @ str '' strong on: price fit.''"
  by (simp add: generate_reason_def bullets_def strong_bullets_def budget_bullets_def
      example_budget_gate safe_float_def isnan_def example_strong_weak clamp01_Fin fge_def)
    (simp add: str_def upper_char_def lower_char_def)

lemma length_budget_bullets: "length (budget_bullets row) \<le> 1"
  by (simp add: budget_bullets_def Let_def)

lemma length_strong_bullets: "length (strong_bullets row) \<le> 2"
  using length_budget_bullets [of row] by (simp add: strong_bullets_def)

lemma length_bullets: "length (bullets row) \<le> 2"
  using length_strong_bullets [of row] by (simp add: bullets_def)

lemma budget_bullets_not_tradeoffs: "b \<in> set (budget_bullets row) \<Longrightarrow> \<not> tradeoffs_clause b"
  by (auto simp: budget_bullets_def Let_def tradeoffs_clause_def str_def split: if_splits)

lemma strong_bullets_not_tradeoffs: "b \<in> set (strong_bullets row) \<Longrightarrow> \<not> tradeoffs_clause b"
  by (auto simp: strong_bullets_def budget_bullets_not_tradeoffs split: if_splits)
     (simp add: tradeoffs_clause_def str_def)

text \<open>
  C7. \<^verbatim>\<open>generate_reason\<close> produces at most 3 clauses. A trade-offs clause is among them
  only when fewer than 2 clauses were there before it, and it then is the last clause and
  reads \<^verbatim>\<open>trade-offs: \<close> followed by the first two weak labels (the labels, in the order of
  \<open>mapping\<close>, of the components whose clamped similarity is at most 0.35). In particular
  there is no trade-offs clause when the budget clause and the strong-components clause
  are both present.
\<close>

theorem reason_clauses:
  "length (bullets row) \<le> 3
   \<and> ((\<exists>b \<in> set (bullets row). tradeoffs_clause b) \<longrightarrow>
        length (strong_bullets row) < 2
        \<and> bullets row =
            strong_bullets row @ [str ''trade-offs: '' @ join (str '', '') (take 2 (weak row))])
   \<and> (budget_bullets row \<noteq> [] \<and> strong row \<noteq> [] \<longrightarrow>
        \<not> (\<exists>b \<in> set (bullets row). tradeoffs_clause b))"
proof (intro conjI impI)
  show "length (bullets row) \<le> 3"
    using length_bullets [of row] by simp
next
  assume "\<exists>b \<in> set (bullets row). tradeoffs_clause b"
  then have "bullets row \<noteq> strong_bullets row"
    using strong_bullets_not_tradeoffs by metis
  then show "length (strong_bullets row) < 2"
    and "bullets row =
      strong_bullets row @ [str ''trade-offs: '' @ join (str '', '') (take 2 (weak row))]"
    by (simp_all add: bullets_def split: if_splits)
next
  assume "budget_bullets row \<noteq> [] \<and> strong row \<noteq> []"
  then have "length (strong_bullets row) \<ge> 2"
    by (cases "budget_bullets row") (simp_all add: strong_bullets_def)
  then have "bullets row = strong_bullets row"
    by (simp add: bullets_def)
  then show "\<not> (\<exists>b \<in> set (bullets row). tradeoffs_clause b)"
    using strong_bullets_not_tradeoffs by metis
qed

theorem reason_clauses_witness:
  "budget_bullets (example_series (Numeric (Fin 0.99)) (Numeric (Fin 0.95))) \<noteq> []
   \<and> strong (example_series (Numeric (Fin 0.99)) (Numeric (Fin 0.95))) \<noteq> []
   \<and> \<not> (\<exists>b \<in> set (bullets (example_series (Numeric (Fin 0.99)) (Numeric (Fin 0.95)))).
          tradeoffs_clause b)
   \<and> (\<exists>b \<in> set (bullets (example_series Unparseable (Numeric (Fin 0.1)))). tradeoffs_clause b)
   \<and> length (strong_bullets (example_series Unparseable (Numeric (Fin 0.1)))) < 2
   \<and> bullets (example_series Unparseable (Numeric (Fin 0.1))) = [str ''trade-offs: price fit'']"
proof -
  have h1: "budget_bullets (example_series (Numeric (Fin 0.99)) (Numeric (Fin 0.95))) \<noteq> []
      \<and> strong (example_series (Numeric (Fin 0.99)) (Numeric (Fin 0.95))) \<noteq> []"
    by (simp add: budget_bullets_def example_budget_gate safe_float_def isnan_def
        example_strong_weak clamp01_Fin fge_def)
  have c: "bullets (example_series Unparseable (Numeric (Fin 0.1))) = [str ''trade-offs: price fit'']"
    by (simp add: bullets_def strong_bullets_def budget_bullets_def example_budget_gate
        safe_float_def isnan_def example_strong_weak clamp01_Fin fge_def)
      (simp add: str_def)
  have d: "tradeoffs_clause (str ''trade-offs: price fit'')"
    by (simp add: tradeoffs_clause_def str_def)
  have h2: "\<exists>b \<in> set (bullets (example_series Unparseable (Numeric (Fin 0.1)))). tradeoffs_clause b"
    unfolding c using d by simp
  note t1 = reason_clauses [of "example_series (Numeric (Fin 0.99)) (Numeric (Fin 0.95))",
      THEN conjunct2, THEN conjunct2, THEN mp, OF h1]
  note t2 = reason_clauses [of "example_series Unparseable (Numeric (Fin 0.1))",
      THEN conjunct2, THEN conjunct1, THEN mp, OF h2]
  show ?thesis
    by (intro conjI)
      (fact h1 [THEN conjunct1] h1 [THEN conjunct2] t1 h2 t2 [THEN conjunct1] c)+
qed

section \<open>Properties of the filters\<close>

lemma example_row_simps:
  "Property_ID (example_row pid score) = str pid"
  "MatchScore (example_row pid score) = score"
  "g_budget (example_row pid score) = Fin 1"
  "Price (example_row pid score) = Fin 350000"
  "Size (example_row pid score) = Fin 1800"
  by (simp_all add: example_row_def)

lemma apply_filters_empty:
  "apply_filters df [] [] [] None None (Fin 0) (Fin 0)
     = filter (\<lambda>r. fge (MatchScore r) (Fin 0) \<and> fge (g_budget r) (Fin 0)) df"
  by (simp add: apply_filters_def conj_commute)

text \<open>
  C1, as amended. With empty criteria (no categorical lists, no ranges, both thresholds
  0) \<^verbatim>\<open>apply_filters\<close> returns, in their input order, exactly the rows whose
  \<^verbatim>\<open>MatchScore\<close> and \<^verbatim>\<open>g_budget\<close> are at least 0; a value that is not-a-number is not.
  So the input comes back unchanged exactly when every row has both values at least 0.
\<close>

theorem apply_filters_empty_criteria:
  "apply_filters df [] [] [] None None (Fin 0) (Fin 0)
     = filter (\<lambda>r. fge (MatchScore r) (Fin 0) \<and> fge (g_budget r) (Fin 0)) df
   \<and> ((apply_filters df [] [] [] None None (Fin 0) (Fin 0) = df)
        = (\<forall>r \<in> set df. fge (MatchScore r) (Fin 0) \<and> fge (g_budget r) (Fin 0)))
   \<and> \<not> fge NaN (Fin 0)"
  by (simp add: apply_filters_empty filter_id_conv fge_NaN)

theorem apply_filters_empty_criteria_witness:
  "fge (MatchScore (example_row ''101'' (Fin 90))) (Fin 0)
   \<and> fge (g_budget (example_row ''101'' (Fin 90))) (Fin 0)
   \<and> apply_filters [example_row ''101'' (Fin 90)] [] [] [] None None (Fin 0) (Fin 0)
       = [example_row ''101'' (Fin 90)]"
proof -
  have h: "\<forall>r \<in> set [example_row ''101'' (Fin 90)].
      fge (MatchScore r) (Fin 0) \<and> fge (g_budget r) (Fin 0)"
    by (simp add: example_row_simps fge_def)
  note t = apply_filters_empty_criteria [of "[example_row ''101'' (Fin 90)]",
      THEN conjunct2, THEN conjunct1, THEN iffD2, OF h]
  from h show ?thesis
    using t by simp
qed

text \<open>
  The claim C1 as stated, that the input comes back unchanged also when a row's
  \<^verbatim>\<open>MatchScore\<close> is not-a-number, fails: the threshold \<^verbatim>\<open>MatchScore >= 0\<close> always
  applies, and such a row is dropped.
\<close>

theorem apply_filters_drops_nan_score:
  "isnan (MatchScore (example_row ''101'' NaN))
   \<and> apply_filters [example_row ''101'' NaN] [] [] [] None None (Fin 0) (Fin 0) = []
   \<and> apply_filters [example_row ''101'' NaN] [] [] [] None None (Fin 0) (Fin 0)
       \<noteq> [example_row ''101'' NaN]"
  by (simp add: apply_filters_def example_row_simps fge_NaN isnan_def)

text \<open>
  C4. A value that is not-a-number satisfies no \<^verbatim>\<open>>=\<close> threshold and no inclusive range.
  So a row whose \<^verbatim>\<open>MatchScore\<close> or \<^verbatim>\<open>g_budget\<close> is not-a-number is never in the result
  of \<^verbatim>\<open>apply_filters\<close>, and a row whose \<^verbatim>\<open>Price\<close> or \<^verbatim>\<open>Size\<close> is not-a-number is not
  in it whenever the price or size range is given.
\<close>

theorem nan_fails_closed:
  "(isnan x \<longrightarrow> \<not> fge x threshold \<and> \<not> (fge x lo \<and> fle x hi))
   \<and> (isnan (MatchScore r) \<or> isnan (g_budget r)
        \<or> (isnan (Price r) \<and> price_range \<noteq> None)
        \<or> (isnan (Size r) \<and> size_range \<noteq> None) \<longrightarrow>
       r \<notin> set (apply_filters df loc_filter type_filter cond_filter price_range size_range
               min_score min_budget_gate))"
  by (auto simp: apply_filters_def Let_def isnan_def fge_NaN fle_NaN_right
      split: if_splits option.splits)

theorem nan_fails_closed_witness:
  "isnan (Price ((example_row ''101'' (Fin 90))\<lparr>Price := NaN\<rparr>))
   \<and> (example_row ''101'' (Fin 90))\<lparr>Price := NaN\<rparr>
       \<notin> set (apply_filters
                [(example_row ''101'' (Fin 90))\<lparr>Price := NaN\<rparr>, example_row ''202'' (Fin 80)]
                [] [] [] (Some (Fin 0, Fin 500000)) None (Fin 0) (Fin 0))
   \<and> isnan (MatchScore (example_row ''310'' NaN))
   \<and> example_row ''310'' NaN
       \<notin> set (apply_filters [example_row ''310'' NaN, example_row ''202'' (Fin 80)]
                [] [] [] None None (Fin 0) (Fin 0))"
proof -
  have h1: "isnan (Price ((example_row ''101'' (Fin 90))\<lparr>Price := NaN\<rparr>))"
    by (simp add: isnan_def)
  have h2: "isnan (MatchScore (example_row ''310'' NaN))"
    by (simp add: isnan_def example_row_simps)
  have t1: "(example_row ''101'' (Fin 90))\<lparr>Price := NaN\<rparr>
       \<notin> set (apply_filters
                [(example_row ''101'' (Fin 90))\<lparr>Price := NaN\<rparr>, example_row ''202'' (Fin 80)]
                [] [] [] (Some (Fin 0, Fin 500000)) None (Fin 0) (Fin 0))"
    by (rule nan_fails_closed [THEN conjunct2, THEN mp]) (simp add: isnan_def)
  have t2: "example_row ''310'' NaN
       \<notin> set (apply_filters [example_row ''310'' NaN, example_row ''202'' (Fin 80)]
                [] [] [] None None (Fin 0) (Fin 0))"
    by (rule nan_fails_closed [THEN conjunct2, THEN mp])
      (simp add: isnan_def example_row_simps)
  show ?thesis
    by (intro conjI) (fact h1 t1 h2 t2)+
qed

section \<open>Properties of the search step\<close>

lemma dot_special: "46 \<in> regex_special"
  by (simp add: regex_special_def str_def)

lemma re_compile_literal:
  "set pat \<inter> regex_special = {} \<Longrightarrow> re_compile pat = Some (map Lit pat)"
  using dot_special by (induction pat) auto

lemma match_here_literal: "match_here (map Lit p) s = prefix p s"
proof (induction p arbitrary: s)
  case Nil
  then show ?case by simp
next
  case (Cons a p)
  then show ?case by (cases s) auto
qed

lemma re_search_literal: "re_search (map Lit p) s = sublist p s"
proof (induction s)
  case Nil
  then show ?case by (simp add: match_here_literal)
next
  case (Cons c s)
  then show ?case by (simp add: match_here_literal sublist_Cons_right)
qed

lemma search_property_id_literal:
  assumes "strip search_pid \<noteq> []" and "set (strip search_pid) \<inter> regex_special = {}"
  shows "search_property_id search_pid df =
         Some (filter (\<lambda>r. sublist (strip search_pid) (Property_ID r)) df)"
  using assms by (simp add: search_property_id_def re_compile_literal re_search_literal)

lemma strip_examples:
  "strip (str ''10'') = str ''10''" "strip (str '' 10'') = str ''10''"
  "strip (str ''1.1'') = str ''1.1''"
  by (simp_all add: strip_def str_def isspace_def)

lemma str_examples:
  "str ''101'' = [49, 48, 49]" "str ''202'' = [50, 48, 50]" "str ''310'' = [51, 49, 48]"
  "str '' 10'' = [32, 49, 48]" "str ''1.1'' = [49, 46, 49]" "str ''10'' = [49, 48]"
  by (simp_all add: str_def)

text \<open>
  C3, as amended. The search text is stripped of leading and trailing whitespace first.
  When the stripped text is not empty and has none of the characters that are special in
  a regular expression, the rows shown are the first \<open>top_k\<close> of those rows of the sorted
  frame whose \<^verbatim>\<open>Property ID\<close> contains the stripped text as a contiguous, case-sensitive
  substring: the search comes after the sort and before the truncation, whatever the sort
  does.
\<close>

theorem search_after_sort_before_top_k:
  assumes "strip search_pid \<noteq> []" and "set (strip search_pid) \<inter> regex_special = {}"
  shows "display_df sort_values sort_choice search_pid top_k filtered =
         Some (take top_k
           (filter (\<lambda>r. sublist (strip search_pid) (Property_ID r))
             (sort_values (fst (sort_col_map sort_choice)) (snd (sort_col_map sort_choice))
                filtered)))"
  using assms
  by (simp add: display_df_def search_property_id_literal split: prod.splits)

theorem search_after_sort_before_top_k_witness:
  "strip (str ''10'') \<noteq> [] \<and> set (strip (str ''10'')) \<inter> regex_special = {}
   \<and> display_df (\<lambda>c. insertion_sort_by (column_value c)) MatchScore_desc (str ''10'') 10
        [example_row ''202'' (Fin 80), example_row ''101'' (Fin 90), example_row ''310'' (Fin 70)]
      = Some [example_row ''101'' (Fin 90), example_row ''310'' (Fin 70)]"
proof -
  have h1: "strip (str ''10'') \<noteq> []"
    by (simp add: strip_examples) (simp add: str_def)
  have h2: "set (strip (str ''10'')) \<inter> regex_special = {}"
    by (simp add: strip_examples) (simp add: str_def regex_special_def)
  have sorted: "insertion_sort_by (column_value Col_MatchScore) False
        [example_row ''202'' (Fin 80), example_row ''101'' (Fin 90), example_row ''310'' (Fin 70)]
      = [example_row ''101'' (Fin 90), example_row ''202'' (Fin 80), example_row ''310'' (Fin 70)]"
    by (simp add: insertion_sort_by_def isnan_def example_row_simps)
  show ?thesis
    using h1 h2
      search_after_sort_before_top_k [OF h1 h2, of "\<lambda>c. insertion_sort_by (column_value c)"
        MatchScore_desc 10
        "[example_row ''202'' (Fin 80), example_row ''101'' (Fin 90), example_row ''310'' (Fin 70)]"]
    by (simp add: sorted strip_examples example_row_simps) (simp add: str_examples sublist_code(3))
qed

text \<open>
  The claim C3 as stated, that for every non-empty search text exactly the rows whose
  \<^verbatim>\<open>Property ID\<close> contains that text are kept, with no character of it read as a
  pattern, fails twice. The text \<^verbatim>\<open>" 10"\<close> is stripped to \<^verbatim>\<open>"10"\<close>, so the ids 101 and
  310 are kept though neither contains a space. In the text \<^verbatim>\<open>"1.1"\<close> the dot stands for
  any character, so the id 101 is kept though it contains no dot.
\<close>

theorem search_not_exact_substring:
  "str '' 10'' \<noteq> []
   \<and> search_property_id (str '' 10'')
        [example_row ''101'' (Fin 90), example_row ''202'' (Fin 80), example_row ''310'' (Fin 70)]
      = Some [example_row ''101'' (Fin 90), example_row ''310'' (Fin 70)]
   \<and> \<not> sublist (str '' 10'') (Property_ID (example_row ''101'' (Fin 90)))
   \<and> \<not> sublist (str '' 10'') (Property_ID (example_row ''310'' (Fin 70)))
   \<and> str ''1.1'' \<noteq> []
   \<and> search_property_id (str ''1.1'')
        [example_row ''101'' (Fin 90), example_row ''202'' (Fin 80), example_row ''310'' (Fin 70)]
      = Some [example_row ''101'' (Fin 90)]
   \<and> \<not> sublist (str ''1.1'') (Property_ID (example_row ''101'' (Fin 90)))"
proof -
  have c: "re_compile (str ''10'') = Some [Lit 49, Lit 48]"
    "re_compile (str ''1.1'') = Some [Lit 49, AnyChar, Lit 49]"
    by (simp_all add: str_def regex_special_def)
  show ?thesis
    by (simp add: search_property_id_def strip_examples c example_row_simps)
      (simp add: str_examples sublist_code(3))
qed

end
